theory Spec2Isabelle
  imports Main
begin

section \<open>Errors\<close>

text \<open>
  Every value the TypeScript code can throw is a value of \<open>error\<close>:
  \<^item> \<open>Error msg\<close> is \<^verbatim>\<open>new Error(msg)\<close>;
  \<^item> \<open>ObjectNotFoundError\<close> is the class of that name in \<^verbatim>\<open>objectStorage.ts\<close>;
  \<^item> \<open>SyntaxError\<close> is what \<^verbatim>\<open>JSON.parse\<close> throws on a text that is not JSON;
  \<^item> \<open>ServiceException name status\<close> is an error of the storage client, with its
    \<^verbatim>\<open>name\<close> and its \<^verbatim>\<open>$metadata.httpStatusCode\<close>;
  \<^item> \<open>TypeError msg\<close> is the \<^verbatim>\<open>TypeError\<close> of the platform, thrown when a request
    header is given a value it cannot carry.
\<close>

datatype error =
    Error string
  | ObjectNotFoundError
  | SyntaxError
  | ServiceException string "nat option"
  | TypeError string

fun error_name :: "error \<Rightarrow> string" where
  "error_name (Error m) = ''Error''"
| "error_name ObjectNotFoundError = ''ObjectNotFoundError''"
| "error_name SyntaxError = ''SyntaxError''"
| "error_name (ServiceException n s) = n"
| "error_name (TypeError m) = ''TypeError''"

fun httpStatusCode :: "error \<Rightarrow> nat option" where
  "httpStatusCode (ServiceException n s) = s"
| "httpStatusCode e = None"

section \<open>Access-control data (objectAcl.ts)\<close>

definition ACL_POLICY_METADATA_KEY :: string where
  "ACL_POLICY_METADATA_KEY = ''custom-acl-policy''"

text \<open>
  \<^verbatim>\<open>enum ObjectAccessGroupType {}\<close> declares no member. A tag read back from a stored
  policy is whatever the stored text holds, so the tag is a string here.
\<close>

type_synonym ObjectAccessGroupType = string

record ObjectAccessGroup =
  group_type :: ObjectAccessGroupType
  group_id :: string

datatype ObjectPermission = READ | WRITE

record ObjectAclRule =
  group :: ObjectAccessGroup
  permission :: ObjectPermission

datatype Visibility = Public | Private

text \<open>\<open>aclRules\<close> is optional in the source: \<open>None\<close> is the missing field.\<close>

record ObjectAclPolicy =
  owner :: string
  visibility :: Visibility
  aclRules :: "ObjectAclRule list option"

definition isPermissionAllowed :: "ObjectPermission \<Rightarrow> ObjectPermission \<Rightarrow> bool" where
  "isPermissionAllowed requested granted =
     (if requested = READ then granted \<in> set [READ, WRITE]
      else granted = WRITE)"

text \<open>The order of the permission lattice: READ below WRITE.\<close>

fun permission_rank :: "ObjectPermission \<Rightarrow> nat" where
  "permission_rank READ = 0"
| "permission_rank WRITE = 1"

section \<open>Strings as the code uses them\<close>

text \<open>
  \<^verbatim>\<open>String.prototype.startsWith\<close>, \<^verbatim>\<open>endsWith\<close>, \<^verbatim>\<open>split\<close> with a one-character
  separator and \<^verbatim>\<open>Array.prototype.join\<close>. Splitting the empty string gives one empty
  piece, as in JavaScript.
\<close>

definition startsWith :: "string \<Rightarrow> string \<Rightarrow> bool" where
  "startsWith s p = (take (length p) s = p)"


fun str_split :: "char \<Rightarrow> string \<Rightarrow> string list" where
  "str_split sep [] = [[]]"
| "str_split sep (c # cs) =
     (if c = sep then [] # str_split sep cs
      else (case str_split sep cs of
              w # ws \<Rightarrow> (c # w) # ws
            | [] \<Rightarrow> [[c]]))"

fun str_join :: "string \<Rightarrow> string list \<Rightarrow> string" where
  "str_join sep [] = []"
| "str_join sep [x] = x"
| "str_join sep (x # y # ys) = x @ sep @ str_join sep (y # ys)"

section \<open>Configuration and path resolution (objectStorage.ts)\<close>

text \<open>The environment variables the service reads; an unset variable is the empty string.\<close>

record Env =
  R2_BUCKET_NAME :: string
  PRIVATE_OBJECT_DIR :: string


definition getBucketName :: "Env \<Rightarrow> error + string" where
  "getBucketName env =
     (if R2_BUCKET_NAME env = []
      then Inl (Error ''R2_BUCKET_NAME not set. Set R2_BUCKET_NAME env var.'')
      else Inr (R2_BUCKET_NAME env))"

record ParsedObjectPath =
  bucketName :: string
  objectName :: string

definition InvalidPathError :: error where
  "InvalidPathError =
     Error ''Invalid path: must contain at least a bucket name or object name''"

definition parseObjectPath :: "Env \<Rightarrow> string \<Rightarrow> error + ParsedObjectPath" where
  "parseObjectPath env path =
     (if \<not> startsWith path ''/'' then
        (case getBucketName env of
           Inl e \<Rightarrow> Inl e
         | Inr b \<Rightarrow> Inr \<lparr>bucketName = b, objectName = path\<rparr>)
      else
        (let pathParts = filter (\<lambda>p. length p > 0) (str_split (CHR ''/'') path) in
         if length pathParts < 1 then Inl InvalidPathError
         else if length pathParts = 1 then
           (case getBucketName env of
              Inl e \<Rightarrow> Inl e
            | Inr b \<Rightarrow> Inr \<lparr>bucketName = b, objectName = pathParts ! 0\<rparr>)
         else Inr \<lparr>bucketName = pathParts ! 0,
                   objectName = str_join ''/'' (drop 1 pathParts)\<rparr>))"

text \<open>
  The resolution rules in the spec's wording, for comparison with the code: a path that
  does not start with the separator is the key under the default bucket; otherwise the
  path is split into its non-empty segments, read off here in one left-to-right scan
  (\<open>cur\<close> is the segment in progress), and resolved by their number.
\<close>

fun segments_from :: "string \<Rightarrow> string \<Rightarrow> string list" where
  "segments_from cur [] = (if cur = [] then [] else [cur])"
| "segments_from cur (c # cs) =
     (if c = CHR ''/'' then (if cur = [] then segments_from [] cs
                            else cur # segments_from [] cs)
      else segments_from (cur @ [c]) cs)"

definition segments :: "string \<Rightarrow> string list" where
  "segments path = segments_from [] path"

definition resolve_rules :: "string \<Rightarrow> string \<Rightarrow> error + ParsedObjectPath" where
  "resolve_rules defaultBucket path =
     (if \<not> startsWith path ''/'' then Inr \<lparr>bucketName = defaultBucket, objectName = path\<rparr>
      else (case segments path of
              [] \<Rightarrow> Inl InvalidPathError
            | [segment] \<Rightarrow> Inr \<lparr>bucketName = defaultBucket, objectName = segment\<rparr>
            | first # remaining \<Rightarrow>
                Inr \<lparr>bucketName = first, objectName = str_join ''/'' remaining\<rparr>))"

section \<open>The storage backend\<close>

text \<open>
  The S3-compatible backend is an external collaborator; the code reaches it through
  \<^verbatim>\<open>objectStorageClient.send\<close>. It is modelled as a store from (bucket, key) to the
  stored object. HEAD answers with the object's headers and custom metadata or with the
  client's not-found error; COPY with the metadata directive REPLACE writes the target
  with the source's body and the metadata and headers of the command.

  The client sends every custom metadata entry of a command as a request header
  \<^verbatim>\<open>x-amz-meta-<key>\<close>. A header value may hold the tab, the printable characters
  \<^verbatim>\<open>0x20\<close> to \<^verbatim>\<open>0x7e\<close> and the characters from \<^verbatim>\<open>0x80\<close> on; for any other character the
  platform refuses the request with a \<^verbatim>\<open>TypeError\<close> before anything is sent.
\<close>

definition header_safe_char :: "char \<Rightarrow> bool" where
  "header_safe_char c =
     (c = CHR 0x09 \<or> (0x20 \<le> (of_char c :: nat) \<and> (of_char c :: nat) \<le> 0x7E)
      \<or> 0x80 \<le> (of_char c :: nat))"

definition header_safe :: "string \<Rightarrow> bool" where
  "header_safe s = list_all header_safe_char s"

definition metadata_header_safe :: "(string \<rightharpoonup> string) \<Rightarrow> bool" where
  "metadata_header_safe m = (\<forall>k v. m k = Some v \<longrightarrow> header_safe v)"

record StoredObject =
  obj_Body :: string
  obj_ContentType :: "string option"
  obj_CacheControl :: "string option"
  obj_ContentEncoding :: "string option"
  obj_ContentDisposition :: "string option"
  obj_ETag :: "string option"
  obj_Metadata :: "string \<rightharpoonup> string"

type_synonym backend = "(string \<times> string) \<rightharpoonup> StoredObject"

record HeadObjectOutput =
  ContentType :: "string option"
  ContentLength :: "nat option"
  Metadata :: "(string \<rightharpoonup> string) option"
  CacheControl :: "string option"
  ContentEncoding :: "string option"
  ContentDisposition :: "string option"
  ETag :: "string option"

definition send_HeadObject :: "backend \<Rightarrow> string \<Rightarrow> string \<Rightarrow> error + HeadObjectOutput" where
  "send_HeadObject be b k =
     (case be (b, k) of
        None \<Rightarrow> Inl (ServiceException ''NotFound'' (Some 404))
      | Some obj \<Rightarrow>
          Inr \<lparr>ContentType = obj_ContentType obj,
               ContentLength = Some (length (obj_Body obj)),
               Metadata = Some (obj_Metadata obj),
               CacheControl = obj_CacheControl obj,
               ContentEncoding = obj_ContentEncoding obj,
               ContentDisposition = obj_ContentDisposition obj,
               ETag = obj_ETag obj\<rparr>)"

datatype MetadataDirective = COPY | REPLACE

record CopyObjectInput =
  copy_Bucket :: string
  copy_Key :: string
  copy_CopySource :: "string \<times> string"
  copy_Metadata :: "string \<rightharpoonup> string"
  copy_MetadataDirective :: MetadataDirective
  copy_ContentType :: "string option"
  copy_CacheControl :: "string option"
  copy_ContentEncoding :: "string option"
  copy_ContentDisposition :: "string option"

definition send_CopyObject :: "backend \<Rightarrow> CopyObjectInput \<Rightarrow> (error + unit) \<times> backend" where
  "send_CopyObject be cmd =
     (if \<not> metadata_header_safe (copy_Metadata cmd)
      then (Inl (TypeError ''Invalid character in header content''), be)
      else
        (case be (copy_CopySource cmd) of
           None \<Rightarrow> (Inl (ServiceException ''NoSuchKey'' (Some 404)), be)
         | Some src \<Rightarrow>
             (Inr (),
              be((copy_Bucket cmd, copy_Key cmd) \<mapsto>
                   (case copy_MetadataDirective cmd of
                      COPY \<Rightarrow> src
                    | REPLACE \<Rightarrow>
                        src\<lparr>obj_Metadata := copy_Metadata cmd,
                            obj_ContentType := copy_ContentType cmd,
                            obj_CacheControl := copy_CacheControl cmd,
                            obj_ContentEncoding := copy_ContentEncoding cmd,
                            obj_ContentDisposition := copy_ContentDisposition cmd\<rparr>)))))"

section \<open>Object handles (class S3ObjectWrapper)\<close>

record S3Object =
  bucket :: string
  key :: string

record ObjectMetadata =
  contentType :: "string option"
  size :: "nat option"
  metadata :: "(string \<rightharpoonup> string) option"

definition getMetadata :: "backend \<Rightarrow> S3Object \<Rightarrow> error + ObjectMetadata" where
  "getMetadata be object =
     (case send_HeadObject be (bucket object) (key object) of
        Inr response \<Rightarrow>
          Inr \<lparr>contentType = ContentType response,
               size = ContentLength response,
               metadata = Metadata response\<rparr>
      | Inl e \<Rightarrow>
          (if error_name e = ''NotFound'' \<or> httpStatusCode e = Some 404
           then Inl ObjectNotFoundError
           else Inl e))"


section \<open>Policy storage and access evaluation (objectAcl.ts)\<close>

text \<open>
  \<^verbatim>\<open>JSON.stringify\<close> and \<^verbatim>\<open>JSON.parse\<close> belong to the language runtime, not to the
  repository: they are parameters. \<open>parse\<close> throws (\<open>Inl\<close>) or returns the value, which
  the code takes as \<^verbatim>\<open>ObjectAclPolicy | null\<close>.
\<close>

record JSON =
  stringify :: "ObjectAclPolicy \<Rightarrow> string"
  parse :: "string \<Rightarrow> error + ObjectAclPolicy option"

text \<open>
  \<^verbatim>\<open>BaseObjectAccessGroup\<close> is abstract: a group with its membership check, which is
  asynchronous and may fail.
\<close>

record BaseObjectAccessGroup =
  base_type :: ObjectAccessGroupType
  base_id :: string
  hasMember :: "string \<Rightarrow> error + bool"

text \<open>The factory's \<^verbatim>\<open>switch\<close> has the \<^verbatim>\<open>default\<close> branch only.\<close>

definition createObjectAccessGroup :: "ObjectAccessGroup \<Rightarrow> error + BaseObjectAccessGroup" where
  "createObjectAccessGroup g = Inl (Error (''Unknown access group type: '' @ group_type g))"

definition setObjectAclPolicy ::
  "JSON \<Rightarrow> backend \<Rightarrow> S3Object \<Rightarrow> ObjectAclPolicy \<Rightarrow> (error + unit) \<times> backend" where
  "setObjectAclPolicy J be objectFile aclPolicy =
     (let currentMetadata0 =
            (case getMetadata be objectFile of
               Inr m \<Rightarrow> (case metadata m of Some mm \<Rightarrow> mm | None \<Rightarrow> Map.empty)
             | Inl e \<Rightarrow> Map.empty);
          currentMetadata = currentMetadata0(ACL_POLICY_METADATA_KEY \<mapsto> stringify J aclPolicy)
      in case send_HeadObject be (bucket objectFile) (key objectFile) of
           Inl e \<Rightarrow>
             (if error_name e \<noteq> ''NotFound'' \<and> httpStatusCode e \<noteq> Some 404
              then (Inl e, be)
              else (Inl (Error (''Object not found: '' @ bucket objectFile @ ''/'' @ key objectFile)),
                    be))
         | Inr headResponse \<Rightarrow>
             (let existingMetadata =
                    (case Metadata headResponse of Some mm \<Rightarrow> mm | None \<Rightarrow> Map.empty);
                  updatedMetadata = existingMetadata ++ currentMetadata
              in send_CopyObject be
                   \<lparr>copy_Bucket = bucket objectFile,
                    copy_Key = key objectFile,
                    copy_CopySource = (bucket objectFile, key objectFile),
                    copy_Metadata = updatedMetadata,
                    copy_MetadataDirective = REPLACE,
                    copy_ContentType = ContentType headResponse,
                    copy_CacheControl = CacheControl headResponse,
                    copy_ContentEncoding = ContentEncoding headResponse,
                    copy_ContentDisposition = ContentDisposition headResponse\<rparr>))"

text \<open>The body of the \<^verbatim>\<open>try\<close> block of \<open>getObjectAclPolicy\<close>, then the function with its catch.\<close>

definition getObjectAclPolicy_try ::
  "JSON \<Rightarrow> backend \<Rightarrow> S3Object \<Rightarrow> error + ObjectAclPolicy option" where
  "getObjectAclPolicy_try J be objectFile =
     (case getMetadata be objectFile of
        Inl e \<Rightarrow> Inl e
      | Inr m \<Rightarrow>
          (case (case metadata m of None \<Rightarrow> None | Some mm \<Rightarrow> mm ACL_POLICY_METADATA_KEY) of
             None \<Rightarrow> Inr None
           | Some aclPolicy \<Rightarrow>
               (if aclPolicy = [] then Inr None else parse J aclPolicy)))"

definition getObjectAclPolicy ::
  "JSON \<Rightarrow> backend \<Rightarrow> S3Object \<Rightarrow> error + ObjectAclPolicy option" where
  "getObjectAclPolicy J be objectFile =
     (case getObjectAclPolicy_try J be objectFile of
        Inl e \<Rightarrow> Inr None
      | Inr r \<Rightarrow> Inr r)"

text \<open>The \<^verbatim>\<open>for\<close> loop of \<open>canAccessObject\<close> over the rules, in stored order.\<close>

fun canAccessObject_rules ::
  "string \<Rightarrow> ObjectPermission \<Rightarrow> ObjectAclRule list \<Rightarrow> error + bool" where
  "canAccessObject_rules userId requestedPermission [] = Inr False"
| "canAccessObject_rules userId requestedPermission (rule # rules) =
     (case createObjectAccessGroup (group rule) of
        Inl e \<Rightarrow> Inl e
      | Inr accessGroup \<Rightarrow>
          (case hasMember accessGroup userId of
             Inl e \<Rightarrow> Inl e
           | Inr member \<Rightarrow>
               (if member \<and> isPermissionAllowed requestedPermission (permission rule)
                then Inr True
                else canAccessObject_rules userId requestedPermission rules)))"

text \<open>
  \<open>userId\<close> is optional. \<^verbatim>\<open>!userId\<close> holds for the missing identifier and for the empty
  string, which JavaScript takes as false.
\<close>

definition canAccessObject ::
  "JSON \<Rightarrow> backend \<Rightarrow> string option \<Rightarrow> S3Object \<Rightarrow> ObjectPermission \<Rightarrow> error + bool" where
  "canAccessObject J be userId objectFile requestedPermission =
     (case getObjectAclPolicy J be objectFile of
        Inl e \<Rightarrow> Inl e
      | Inr None \<Rightarrow> Inr False
      | Inr (Some aclPolicy) \<Rightarrow>
          (if visibility aclPolicy = Public \<and> requestedPermission = READ then Inr True
           else
             (case userId of
                None \<Rightarrow> Inr False
              | Some u \<Rightarrow>
                  (if u = [] then Inr False
                   else if owner aclPolicy = u then Inr True
                   else canAccessObject_rules u requestedPermission
                          (case aclRules aclPolicy of None \<Rightarrow> [] | Some rules \<Rightarrow> rules)))))"

section \<open>Concrete data for evaluation\<close>

text \<open>
  A small configuration, a few policies, one stored object and a JSON codec on which the
  definitions above are evaluated. \<open>sample_stringify\<close> prints the JSON text of a policy;
  \<open>sample_parse\<close> reads \<^verbatim>\<open>null\<close> and the texts of the policies of \<open>sample_policies\<close>,
  and throws on every other text.
\<close>

definition sample_env :: Env where
  "sample_env = \<lparr>R2_BUCKET_NAME = ''media'', PRIVATE_OBJECT_DIR = ''/media/private''\<rparr>"

definition policy_public :: ObjectAclPolicy where
  "policy_public = \<lparr>owner = ''u1'', visibility = Public, aclRules = Some []\<rparr>"

definition policy_blank_owner :: ObjectAclPolicy where
  "policy_blank_owner = \<lparr>owner = [], visibility = Private, aclRules = Some []\<rparr>"

definition policy_group :: ObjectAclPolicy where
  "policy_group =
     \<lparr>owner = ''u1'', visibility = Private,
      aclRules = Some [\<lparr>group = \<lparr>group_type = ''X'', group_id = ''g1''\<rparr>,
                        permission = READ\<rparr>]\<rparr>"

text \<open>A policy whose owner identifier ends in the character \<^verbatim>\<open>0x7f\<close> (DEL).\<close>

definition policy_del_owner :: ObjectAclPolicy where
  "policy_del_owner = \<lparr>owner = [CHR ''u'', CHR 0x7F], visibility = Private, aclRules = Some []\<rparr>"


definition sample_policies :: "ObjectAclPolicy list" where
  "sample_policies = [policy_public, policy_blank_owner, policy_group]"

definition quoted :: "string \<Rightarrow> string" where
  "quoted s = CHR 0x22 # s @ [CHR 0x22]"

definition rule_text :: "ObjectAclRule \<Rightarrow> string" where
  "rule_text r =
     ''{'' @ quoted ''group'' @ '':{'' @ quoted ''type'' @ '':'' @ quoted (group_type (group r))
       @ '','' @ quoted ''id'' @ '':'' @ quoted (group_id (group r)) @ ''},''
       @ quoted ''permission'' @ '':''
       @ quoted (case permission r of READ \<Rightarrow> ''read'' | WRITE \<Rightarrow> ''write'') @ ''}''"

definition sample_stringify :: "ObjectAclPolicy \<Rightarrow> string" where
  "sample_stringify p =
     ''{'' @ quoted ''owner'' @ '':'' @ quoted (owner p) @ '',''
       @ quoted ''visibility'' @ '':''
       @ quoted (case visibility p of Public \<Rightarrow> ''public'' | Private \<Rightarrow> ''private'')
       @ (case aclRules p of
            None \<Rightarrow> []
          | Some rs \<Rightarrow> '','' @ quoted ''aclRules'' @ '':['' @ str_join '','' (map rule_text rs) @ '']'')
       @ ''}''"

definition sample_parse :: "string \<Rightarrow> error + ObjectAclPolicy option" where
  "sample_parse s =
     (if s = ''null'' then Inr None
      else (case find (\<lambda>p. sample_stringify p = s) sample_policies of
              Some p \<Rightarrow> Inr (Some p)
            | None \<Rightarrow> Inl SyntaxError))"

definition sample_JSON :: JSON where
  "sample_JSON = \<lparr>stringify = sample_stringify, parse = sample_parse\<rparr>"

definition sample_file :: S3Object where
  "sample_file = \<lparr>bucket = ''media'', key = ''private/uploads/a1''\<rparr>"

definition sample_object :: "(string \<rightharpoonup> string) \<Rightarrow> StoredObject" where
  "sample_object md =
     \<lparr>obj_Body = ''hello'',
      obj_ContentType = Some ''text/plain'',
      obj_CacheControl = Some ''no-cache'',
      obj_ContentEncoding = None,
      obj_ContentDisposition = Some ''inline'',
      obj_ETag = Some ''e1'',
      obj_Metadata = md\<rparr>"

text \<open>A backend holding the one object of \<open>sample_file\<close>, with the custom metadata \<open>md\<close>.\<close>

definition sample_backend :: "(string \<rightharpoonup> string) \<Rightarrow> backend" where
  "sample_backend md = [(''media'', ''private/uploads/a1'') \<mapsto> sample_object md]"

definition stored_policy :: "ObjectAclPolicy \<Rightarrow> (string \<rightharpoonup> string)" where
  "stored_policy p = [''origin'' \<mapsto> ''upload'', ACL_POLICY_METADATA_KEY \<mapsto> sample_stringify p]"

section \<open>Basic facts\<close>

lemmas codec_defs =
  stored_policy_def sample_JSON_def sample_parse_def sample_policies_def
  ACL_POLICY_METADATA_KEY_def sample_stringify_def
  policy_public_def policy_blank_owner_def policy_group_def quoted_def rule_text_def

lemma str_split_not_Nil: "str_split sep s \<noteq> []"
  by (induction s) (auto split: list.splits)

text \<open>The scan of the spec's wording and the code's split-then-filter give the same segments.\<close>

lemma segments_from_split:
  "segments_from cur s =
     filter (\<lambda>p. length p > 0)
       ((cur @ hd (str_split (CHR ''/'') s)) # tl (str_split (CHR ''/'') s))"
proof (induction s arbitrary: cur)
  case Nil
  then show ?case by simp
next
  case (Cons c cs)
  obtain w ws where sp: "str_split (CHR ''/'') cs = w # ws"
    using str_split_not_Nil [of "CHR ''/''" cs] by (cases "str_split (CHR ''/'') cs") auto
  show ?case
    using Cons [of "[]"] Cons [of "cur @ [c]"] sp by simp
qed

lemma segments_split: "filter (\<lambda>p. length p > 0) (str_split (CHR ''/'') path) = segments path"
  using segments_from_split [of "[]" path] str_split_not_Nil [of "CHR ''/''" path]
  by (cases "str_split (CHR ''/'') path") (simp_all add: segments_def)

lemma parseObjectPath_segments:
  "parseObjectPath env path =
     (if \<not> startsWith path ''/'' then
        (case getBucketName env of
           Inl e \<Rightarrow> Inl e
         | Inr b \<Rightarrow> Inr \<lparr>bucketName = b, objectName = path\<rparr>)
      else
        (case segments path of
           [] \<Rightarrow> Inl InvalidPathError
         | [s] \<Rightarrow> (case getBucketName env of
                     Inl e \<Rightarrow> Inl e
                   | Inr b \<Rightarrow> Inr \<lparr>bucketName = b, objectName = s\<rparr>)
         | b # ks \<Rightarrow> Inr \<lparr>bucketName = b, objectName = str_join ''/'' ks\<rparr>))"
  unfolding parseObjectPath_def segments_split
  by (cases "segments path"; cases "tl (segments path)") (auto simp: Let_def split: sum.splits)

lemma startsWith_append: "startsWith s p \<Longrightarrow> \<exists>r. s = p @ r"
  unfolding startsWith_def by (metis append_take_drop_id)

text \<open>
  A path that starts with \<^verbatim>\<open>/objects/\<close> always has two parts or more, so the check
  \<^verbatim>\<open>parts.length < 2\<close> of \<open>getObjectEntityFile\<close> never fires after the prefix check.
\<close>

lemma entity_prefix_two_parts:
  assumes "startsWith objectPath ''/objects/''"
  shows "2 \<le> length (str_split (CHR ''/'') (drop 1 objectPath))"
proof -
  from assms obtain r where "objectPath = ''/objects/'' @ r"
    using startsWith_append by blast
  then have "drop 1 objectPath = ''objects'' @ CHR ''/'' # r"
    by simp
  then have "str_split (CHR ''/'') (drop 1 objectPath) = ''objects'' # str_split (CHR ''/'') r"
    by simp
  then show ?thesis
    using str_split_not_Nil [of "CHR ''/''" r]
    by (cases "str_split (CHR ''/'') r") simp_all
qed

lemma getMetadata_existing:
  "be (bucket objectFile, key objectFile) = Some obj \<Longrightarrow>
   getMetadata be objectFile =
     Inr \<lparr>contentType = obj_ContentType obj, size = Some (length (obj_Body obj)),
          metadata = Some (obj_Metadata obj)\<rparr>"
  by (simp add: getMetadata_def send_HeadObject_def)


lemma getObjectAclPolicy_existing:
  "be (bucket objectFile, key objectFile) = Some obj \<Longrightarrow>
   getObjectAclPolicy J be objectFile =
     (case obj_Metadata obj ACL_POLICY_METADATA_KEY of
        None \<Rightarrow> Inr None
      | Some s \<Rightarrow> if s = [] then Inr None
                  else (case parse J s of Inl e \<Rightarrow> Inr None | Inr r \<Rightarrow> Inr r))"
  by (simp add: getObjectAclPolicy_def getObjectAclPolicy_try_def getMetadata_existing
           split: option.splits)

lemma merge_same: "m ++ m = m"
  by (rule ext) (simp add: map_add_def split: option.splits)

text \<open>On an existing object the write changes the reserved metadata key and nothing else.\<close>

lemma metadata_header_safe_update:
  "metadata_header_safe m \<Longrightarrow> header_safe v \<Longrightarrow> metadata_header_safe (m(k \<mapsto> v))"
  by (simp add: metadata_header_safe_def)

lemma setObjectAclPolicy_existing:
  "be (bucket objectFile, key objectFile) = Some obj \<Longrightarrow>
   metadata_header_safe (obj_Metadata obj) \<Longrightarrow> header_safe (stringify J P) \<Longrightarrow>
   setObjectAclPolicy J be objectFile P =
     (Inr (),
      be((bucket objectFile, key objectFile) \<mapsto>
           obj\<lparr>obj_Metadata := (obj_Metadata obj)(ACL_POLICY_METADATA_KEY \<mapsto> stringify J P)\<rparr>))"
  by (simp add: setObjectAclPolicy_def getMetadata_existing send_HeadObject_def
        send_CopyObject_def merge_same Let_def metadata_header_safe_update)

text \<open>When the text printed for the policy cannot go into a header, nothing is written.\<close>

lemma setObjectAclPolicy_unsafe_text:
  "be (bucket objectFile, key objectFile) = Some obj \<Longrightarrow> \<not> header_safe (stringify J P) \<Longrightarrow>
   setObjectAclPolicy J be objectFile P
     = (Inl (TypeError ''Invalid character in header content''), be)"
proof -
  assume ex: "be (bucket objectFile, key objectFile) = Some obj"
    and unsafe: "\<not> header_safe (stringify J P)"
  have "\<not> metadata_header_safe
            ((obj_Metadata obj)(ACL_POLICY_METADATA_KEY \<mapsto> stringify J P))"
    using unsafe by (auto simp: metadata_header_safe_def)
  then show ?thesis
    using ex
    by (simp add: setObjectAclPolicy_def getMetadata_existing send_HeadObject_def
          send_CopyObject_def merge_same Let_def)
qed

lemma canAccessObject_policy:
  "getObjectAclPolicy J be objectFile = Inr (Some aclPolicy) \<Longrightarrow>
   canAccessObject J be userId objectFile requestedPermission =
     (if visibility aclPolicy = Public \<and> requestedPermission = READ then Inr True
      else (case userId of
              None \<Rightarrow> Inr False
            | Some u \<Rightarrow>
                if u = [] then Inr False
                else if owner aclPolicy = u then Inr True
                else canAccessObject_rules u requestedPermission
                       (case aclRules aclPolicy of None \<Rightarrow> [] | Some rules \<Rightarrow> rules)))"
  by (simp add: canAccessObject_def)

subsection \<open>The concrete data\<close>

lemma sample_stored:
  "sample_backend md (bucket sample_file, key sample_file) = Some (sample_object md)"
  by (simp add: sample_backend_def sample_file_def)

lemma getObjectAclPolicy_sample:
  "getObjectAclPolicy J (sample_backend md) sample_file =
     (case md ACL_POLICY_METADATA_KEY of
        None \<Rightarrow> Inr None
      | Some s \<Rightarrow> if s = [] then Inr None
                  else (case parse J s of Inl e \<Rightarrow> Inr None | Inr r \<Rightarrow> Inr r))"
  using getObjectAclPolicy_existing [of "sample_backend md" sample_file "sample_object md" J]
  by (simp add: sample_stored sample_object_def)

lemma sample_policy_public:
  "getObjectAclPolicy sample_JSON (sample_backend (stored_policy policy_public)) sample_file
     = Inr (Some policy_public)"
  by (simp add: getObjectAclPolicy_sample codec_defs)

lemma sample_policy_blank_owner:
  "getObjectAclPolicy sample_JSON (sample_backend (stored_policy policy_blank_owner)) sample_file
     = Inr (Some policy_blank_owner)"
  by (simp add: getObjectAclPolicy_sample codec_defs)

lemma sample_policy_group:
  "getObjectAclPolicy sample_JSON (sample_backend (stored_policy policy_group)) sample_file
     = Inr (Some policy_group)"
  by (simp add: getObjectAclPolicy_sample codec_defs)

section \<open>Path resolution\<close>

text \<open>
  C7, as the code has it. With the default bucket configured, \<open>parseObjectPath\<close> follows
  the rules of the spec for every path but the empty one: a path not starting with the
  separator resolves to the default bucket with the path as key, and the empty path is
  such a path, so it resolves to the default bucket with the empty key; a path starting
  with the separator fails with the invalid-path error when it has no non-empty segment,
  resolves to the default bucket and the segment when it has one, and to the first segment
  as bucket and the remaining segments joined by the separator when it has two or more.
\<close>

theorem parseObjectPath_rules:
  assumes "R2_BUCKET_NAME env \<noteq> []"
  shows "parseObjectPath env path = resolve_rules (R2_BUCKET_NAME env) path \<and>
         parseObjectPath env [] = Inr \<lparr>bucketName = R2_BUCKET_NAME env, objectName = []\<rparr>"
  using assms
  by (simp add: parseObjectPath_segments resolve_rules_def getBucketName_def startsWith_def
           split: list.splits)

text \<open>The rules at the paths of the spec's examples, with the default bucket \<open>media\<close>.\<close>

theorem parseObjectPath_rules_witness:
  "R2_BUCKET_NAME sample_env \<noteq> [] \<and>
   parseObjectPath sample_env ''/b/k1/k2'' = Inr \<lparr>bucketName = ''b'', objectName = ''k1/k2''\<rparr> \<and>
   parseObjectPath sample_env ''foo'' = Inr \<lparr>bucketName = ''media'', objectName = ''foo''\<rparr> \<and>
   parseObjectPath sample_env ''/k'' = Inr \<lparr>bucketName = ''media'', objectName = ''k''\<rparr> \<and>
   parseObjectPath sample_env ''//'' = Inl InvalidPathError"
proof -
  have h: "R2_BUCKET_NAME sample_env \<noteq> []"
    by (simp add: sample_env_def)
  have n: "R2_BUCKET_NAME sample_env = ''media''"
    by (simp add: sample_env_def)
  show ?thesis
    using parseObjectPath_rules [OF h, of "''/b/k1/k2''"] parseObjectPath_rules [OF h, of "''foo''"]
          parseObjectPath_rules [OF h, of "''/k''"] parseObjectPath_rules [OF h, of "''//''"] h
    by (simp add: n resolve_rules_def segments_def startsWith_def)
qed

text \<open>
  C7 as stated says that the empty path fails with the invalid-path error. The code does
  not fail there: the empty path does not start with the separator and is returned as the
  key under the default bucket.
\<close>

theorem parseObjectPath_empty_counterexample:
  "parseObjectPath sample_env [] = Inr \<lparr>bucketName = ''media'', objectName = []\<rparr> \<and>
   parseObjectPath sample_env [] \<noteq> Inl InvalidPathError"
  by (simp add: parseObjectPath_def startsWith_def getBucketName_def sample_env_def)

section \<open>Entity resolution\<close>






section \<open>The permission lattice\<close>

text \<open>
  C3. \<open>isPermissionAllowed\<close> realises the ordered lattice \<open>{READ, WRITE}\<close>: a rule
  granting WRITE satisfies a READ request and a WRITE request, a rule granting READ
  satisfies a READ request and never a WRITE request; in general a request is
  allowed exactly when it is not above the granted permission.
\<close>

theorem isPermissionAllowed_lattice:
  "isPermissionAllowed READ WRITE \<and> isPermissionAllowed WRITE WRITE \<and>
   isPermissionAllowed READ READ \<and> \<not> isPermissionAllowed WRITE READ \<and>
   (\<forall>requested granted.
      isPermissionAllowed requested granted =
        (permission_rank requested \<le> permission_rank granted))"
proof -
  have "isPermissionAllowed requested granted =
          (permission_rank requested \<le> permission_rank granted)"
    for requested granted
    by (cases requested; cases granted) (simp_all add: isPermissionAllowed_def)
  then show ?thesis
    by simp
qed

section \<open>Policy storage\<close>

text \<open>
  C4, as the code has it. For a reference whose object is not in the backend,
  \<open>setObjectAclPolicy\<close> fails with the plain error of message
  \<^verbatim>\<open>Object not found: <bucket>/<key>\<close> and writes nothing: the backend it leaves is the
  backend it found, so no object is created.
\<close>

theorem setObjectAclPolicy_missing_object:
  "be (bucket objectFile, key objectFile) = None \<Longrightarrow>
   setObjectAclPolicy J be objectFile P =
     (Inl (Error (''Object not found: '' @ bucket objectFile @ ''/'' @ key objectFile)), be)"
  by (simp add: setObjectAclPolicy_def send_HeadObject_def Let_def)

text \<open>A key that the sample backend does not hold.\<close>

theorem setObjectAclPolicy_missing_object_witness:
  "sample_backend Map.empty (bucket \<lparr>bucket = ''media'', key = ''nope''\<rparr>,
                             key \<lparr>bucket = ''media'', key = ''nope''\<rparr>) = None \<and>
   setObjectAclPolicy sample_JSON (sample_backend Map.empty)
       \<lparr>bucket = ''media'', key = ''nope''\<rparr> policy_public
     = (Inl (Error ''Object not found: media/nope''), sample_backend Map.empty)"
proof -
  have h: "sample_backend Map.empty (bucket \<lparr>bucket = ''media'', key = ''nope''\<rparr>,
                                     key \<lparr>bucket = ''media'', key = ''nope''\<rparr>) = None"
    by (simp add: sample_backend_def)
  show ?thesis
    using setObjectAclPolicy_missing_object
            [of "sample_backend Map.empty" "\<lparr>bucket = ''media'', key = ''nope''\<rparr>"
                sample_JSON policy_public] h
    by simp
qed

text \<open>
  C4 as stated has the failure be the not-found error, which in this code is
  \<open>ObjectNotFoundError\<close>: the error that \<open>getMetadata\<close> and \<open>getObjectEntityFile\<close>
  raise for a missing object. \<open>setObjectAclPolicy\<close> raises another value, an \<open>Error\<close>
  built with its own message.
\<close>

theorem setObjectAclPolicy_missing_object_counterexample:
  "sample_backend Map.empty (''media'', ''nope'') = None \<and>
   getMetadata (sample_backend Map.empty) \<lparr>bucket = ''media'', key = ''nope''\<rparr>
     = Inl ObjectNotFoundError \<and>
   fst (setObjectAclPolicy sample_JSON (sample_backend Map.empty)
          \<lparr>bucket = ''media'', key = ''nope''\<rparr> policy_public)
     = Inl (Error ''Object not found: media/nope'') \<and>
   fst (setObjectAclPolicy sample_JSON (sample_backend Map.empty)
          \<lparr>bucket = ''media'', key = ''nope''\<rparr> policy_public)
     \<noteq> Inl ObjectNotFoundError"
  by (simp add: setObjectAclPolicy_def getMetadata_def send_HeadObject_def Let_def
        sample_backend_def)

text \<open>
  C5, as the code has it. Take an existing object whose stored custom metadata values
  can go into request headers, and a policy \<open>P\<close> for which the runtime prints a JSON
  text that is not empty and can go into a request header. Then \<open>setObjectAclPolicy\<close>
  succeeds and \<open>getObjectAclPolicy\<close> returns what the runtime parses from that text:
  the policy \<open>P\<close> itself when the runtime reads its own text of \<open>P\<close> back. The stored
  object keeps every custom metadata key other than the reserved policy key with its
  value, gains no other key, and keeps its content type, cache control, content
  encoding, content disposition and body.
\<close>

theorem setObjectAclPolicy_roundtrip:
  assumes "be (bucket objectFile, key objectFile) = Some obj"
    and "metadata_header_safe (obj_Metadata obj)"
    and "stringify J P \<noteq> []"
    and "header_safe (stringify J P)"
  shows "fst (setObjectAclPolicy J be objectFile P) = Inr () \<and>
         getObjectAclPolicy J (snd (setObjectAclPolicy J be objectFile P)) objectFile
           = (case parse J (stringify J P) of Inl e \<Rightarrow> Inr None | Inr r \<Rightarrow> Inr r) \<and>
         (parse J (stringify J P) = Inr (Some P) \<longrightarrow>
            getObjectAclPolicy J (snd (setObjectAclPolicy J be objectFile P)) objectFile
              = Inr (Some P)) \<and>
         (\<exists>obj'. snd (setObjectAclPolicy J be objectFile P) (bucket objectFile, key objectFile)
                   = Some obj' \<and>
            (\<forall>k. k \<noteq> ACL_POLICY_METADATA_KEY \<longrightarrow> obj_Metadata obj' k = obj_Metadata obj k) \<and>
            obj_ContentType obj' = obj_ContentType obj \<and>
            obj_CacheControl obj' = obj_CacheControl obj \<and>
            obj_ContentEncoding obj' = obj_ContentEncoding obj \<and>
            obj_ContentDisposition obj' = obj_ContentDisposition obj \<and>
            obj_Body obj' = obj_Body obj)"
proof -
  let ?obj' = "obj\<lparr>obj_Metadata := (obj_Metadata obj)(ACL_POLICY_METADATA_KEY \<mapsto> stringify J P)\<rparr>"
  let ?be' = "be((bucket objectFile, key objectFile) \<mapsto> ?obj')"
  have set: "setObjectAclPolicy J be objectFile P = (Inr (), ?be')"
    using assms(1,2,4) by (rule setObjectAclPolicy_existing)
  have stored: "?be' (bucket objectFile, key objectFile) = Some ?obj'"
    by simp
  have get: "getObjectAclPolicy J ?be' objectFile
               = (case parse J (stringify J P) of Inl e \<Rightarrow> Inr None | Inr r \<Rightarrow> Inr r)"
    using assms(3)
    by (simp add: getObjectAclPolicy_existing [of ?be' objectFile ?obj'])
  show ?thesis
    unfolding set fst_conv snd_conv using get stored by simp
qed

text \<open>
  An object that carries the custom key \<open>origin\<close> and no policy yet; the sample codec
  reads the text of \<open>policy_group\<close> back.
\<close>

theorem setObjectAclPolicy_roundtrip_witness:
  "sample_backend [''origin'' \<mapsto> ''upload''] (bucket sample_file, key sample_file)
     = Some (sample_object [''origin'' \<mapsto> ''upload'']) \<and>
   metadata_header_safe (obj_Metadata (sample_object [''origin'' \<mapsto> ''upload''])) \<and>
   stringify sample_JSON policy_group \<noteq> [] \<and>
   header_safe (stringify sample_JSON policy_group) \<and>
   parse sample_JSON (stringify sample_JSON policy_group) = Inr (Some policy_group) \<and>
   fst (setObjectAclPolicy sample_JSON (sample_backend [''origin'' \<mapsto> ''upload''])
          sample_file policy_group) = Inr () \<and>
   getObjectAclPolicy sample_JSON
     (snd (setObjectAclPolicy sample_JSON (sample_backend [''origin'' \<mapsto> ''upload''])
             sample_file policy_group)) sample_file = Inr (Some policy_group)"
proof -
  have m: "metadata_header_safe (obj_Metadata (sample_object [''origin'' \<mapsto> ''upload'']))"
    by (simp add: metadata_header_safe_def sample_object_def header_safe_def
          header_safe_char_def)
  have a: "stringify sample_JSON policy_group \<noteq> []"
    by (simp add: sample_JSON_def sample_stringify_def)
  have h: "header_safe (stringify sample_JSON policy_group)"
    by (simp add: header_safe_def header_safe_char_def codec_defs)
  have b: "parse sample_JSON (stringify sample_JSON policy_group) = Inr (Some policy_group)"
    by (simp add: codec_defs)
  show ?thesis
    using setObjectAclPolicy_roundtrip
            [of "sample_backend [''origin'' \<mapsto> ''upload'']" sample_file
                "sample_object [''origin'' \<mapsto> ''upload'']" sample_JSON policy_group]
          m a h b sample_stored
    by simp
qed

text \<open>
  C5 as stated speaks of every policy. The JSON text of a policy goes into the request
  header of the reserved key as it is, and JSON leaves the character \<^verbatim>\<open>0x7f\<close>
  unescaped: for a policy whose owner identifier holds it, the copy request is refused,
  \<open>setObjectAclPolicy\<close> fails, and \<open>getObjectAclPolicy\<close> still finds no policy.
\<close>

theorem setObjectAclPolicy_unsafe_text_counterexample:
  "sample_backend [''origin'' \<mapsto> ''upload''] (bucket sample_file, key sample_file)
     = Some (sample_object [''origin'' \<mapsto> ''upload'']) \<and>
   \<not> header_safe (stringify sample_JSON policy_del_owner) \<and>
   setObjectAclPolicy sample_JSON (sample_backend [''origin'' \<mapsto> ''upload''])
       sample_file policy_del_owner
     = (Inl (TypeError ''Invalid character in header content''),
        sample_backend [''origin'' \<mapsto> ''upload'']) \<and>
   getObjectAclPolicy sample_JSON
     (snd (setObjectAclPolicy sample_JSON (sample_backend [''origin'' \<mapsto> ''upload''])
             sample_file policy_del_owner)) sample_file = Inr None"
proof -
  have u: "\<not> header_safe (stringify sample_JSON policy_del_owner)"
    by (simp add: header_safe_def header_safe_char_def sample_JSON_def sample_stringify_def
          policy_del_owner_def quoted_def)
  have s: "setObjectAclPolicy sample_JSON (sample_backend [''origin'' \<mapsto> ''upload''])
             sample_file policy_del_owner
           = (Inl (TypeError ''Invalid character in header content''),
              sample_backend [''origin'' \<mapsto> ''upload''])"
    using sample_stored u by (rule setObjectAclPolicy_unsafe_text)
  have g: "getObjectAclPolicy sample_JSON (sample_backend [''origin'' \<mapsto> ''upload''])
             sample_file = Inr None"
    by (simp add: getObjectAclPolicy_sample ACL_POLICY_METADATA_KEY_def)
  show ?thesis
    unfolding s snd_conv using u g sample_stored by simp
qed

text \<open>
  C6. \<open>getObjectAclPolicy\<close> never raises; for an object without the reserved policy
  key it returns null, and for an object whose reserved key holds a text that the
  runtime fails to parse it returns null.
\<close>

theorem getObjectAclPolicy_null_never_raises:
  "\<not> isl (getObjectAclPolicy J be objectFile) \<and>
   (be (bucket objectFile, key objectFile) = Some obj \<and>
    obj_Metadata obj ACL_POLICY_METADATA_KEY = None
      \<longrightarrow> getObjectAclPolicy J be objectFile = Inr None) \<and>
   (be (bucket objectFile, key objectFile) = Some obj \<and>
    obj_Metadata obj ACL_POLICY_METADATA_KEY = Some text \<and> parse J text = Inl e
      \<longrightarrow> getObjectAclPolicy J be objectFile = Inr None)"
proof -
  have "\<not> isl (getObjectAclPolicy J be objectFile)"
    by (simp add: getObjectAclPolicy_def split: sum.splits)
  then show ?thesis
    by (auto simp: getObjectAclPolicy_existing)
qed

text \<open>An object with no policy key, and one whose policy key holds a broken text.\<close>

theorem getObjectAclPolicy_null_never_raises_witness:
  "(sample_backend [''origin'' \<mapsto> ''upload'']) (bucket sample_file, key sample_file)
     = Some (sample_object [''origin'' \<mapsto> ''upload'']) \<and>
   obj_Metadata (sample_object [''origin'' \<mapsto> ''upload'']) ACL_POLICY_METADATA_KEY = None \<and>
   getObjectAclPolicy sample_JSON (sample_backend [''origin'' \<mapsto> ''upload'']) sample_file
     = Inr None \<and>
   (sample_backend [ACL_POLICY_METADATA_KEY \<mapsto> ''{oops'']) (bucket sample_file, key sample_file)
     = Some (sample_object [ACL_POLICY_METADATA_KEY \<mapsto> ''{oops'']) \<and>
   obj_Metadata (sample_object [ACL_POLICY_METADATA_KEY \<mapsto> ''{oops'']) ACL_POLICY_METADATA_KEY
     = Some ''{oops'' \<and>
   parse sample_JSON ''{oops'' = Inl SyntaxError \<and>
   getObjectAclPolicy sample_JSON (sample_backend [ACL_POLICY_METADATA_KEY \<mapsto> ''{oops''])
     sample_file = Inr None"
proof -
  have a: "obj_Metadata (sample_object [''origin'' \<mapsto> ''upload'']) ACL_POLICY_METADATA_KEY = None"
    by (simp add: sample_object_def ACL_POLICY_METADATA_KEY_def)
  have b: "obj_Metadata (sample_object [ACL_POLICY_METADATA_KEY \<mapsto> ''{oops''])
             ACL_POLICY_METADATA_KEY = Some ''{oops''"
    by (simp add: sample_object_def)
  have c: "parse sample_JSON ''{oops'' = Inl SyntaxError"
    by (simp add: codec_defs)
  show ?thesis
    using getObjectAclPolicy_null_never_raises
            [of sample_JSON "sample_backend [''origin'' \<mapsto> ''upload'']" sample_file
                "sample_object [''origin'' \<mapsto> ''upload'']"]
          getObjectAclPolicy_null_never_raises
            [of sample_JSON "sample_backend [ACL_POLICY_METADATA_KEY \<mapsto> ''{oops'']" sample_file
                "sample_object [ACL_POLICY_METADATA_KEY \<mapsto> ''{oops'']" "''{oops''" SyntaxError]
          a b c sample_stored
    by simp
qed

section \<open>Access evaluation\<close>

text \<open>
  C1. For an object whose stored policy has visibility public, \<open>canAccessObject\<close>
  allows READ to every caller, the absent one included; for the absent caller it denies
  WRITE, whatever the rules of the policy are, so in particular with empty \<open>aclRules\<close>.
\<close>

theorem public_read_anonymous:
  assumes "getObjectAclPolicy J be objectFile = Inr (Some aclPolicy)"
    and "visibility aclPolicy = Public"
  shows "canAccessObject J be userId objectFile READ = Inr True \<and>
         canAccessObject J be None objectFile READ = Inr True \<and>
         canAccessObject J be None objectFile WRITE = Inr False"
  using assms(2) by (simp add: canAccessObject_policy [OF assms(1)])

text \<open>The public policy of owner \<open>u1\<close> with empty rules, and no caller.\<close>

theorem public_read_anonymous_witness:
  "getObjectAclPolicy sample_JSON (sample_backend (stored_policy policy_public)) sample_file
     = Inr (Some policy_public) \<and>
   visibility policy_public = Public \<and> aclRules policy_public = Some [] \<and>
   canAccessObject sample_JSON (sample_backend (stored_policy policy_public)) None sample_file READ
     = Inr True \<and>
   canAccessObject sample_JSON (sample_backend (stored_policy policy_public)) None sample_file WRITE
     = Inr False"
proof -
  have v: "visibility policy_public = Public" and r: "aclRules policy_public = Some []"
    by (simp_all add: policy_public_def)
  show ?thesis
    using public_read_anonymous [OF sample_policy_public v, of None] sample_policy_public v r
    by simp
qed

text \<open>
  C2, as the code has it. A caller whose identifier is not the empty string and equals
  the owner of the stored policy is allowed READ and WRITE, whatever the rules of the
  policy are.
\<close>

theorem owner_access:
  assumes "getObjectAclPolicy J be objectFile = Inr (Some aclPolicy)"
    and "userId \<noteq> []"
    and "owner aclPolicy = userId"
  shows "canAccessObject J be (Some userId) objectFile requestedPermission = Inr True"
  using assms(2,3) by (simp add: canAccessObject_policy [OF assms(1)])

text \<open>The owner \<open>u1\<close> of a private policy writes.\<close>

theorem owner_access_witness:
  "getObjectAclPolicy sample_JSON (sample_backend (stored_policy policy_group)) sample_file
     = Inr (Some policy_group) \<and>
   ''u1'' \<noteq> [] \<and> owner policy_group = ''u1'' \<and>
   canAccessObject sample_JSON (sample_backend (stored_policy policy_group)) (Some ''u1'')
     sample_file WRITE = Inr True"
proof -
  have n: "''u1'' \<noteq> []" and ow: "owner policy_group = ''u1''"
    by (simp_all add: policy_group_def)
  show ?thesis
    using owner_access [OF sample_policy_group n ow, of WRITE] sample_policy_group n ow
    by simp
qed

text \<open>
  C2 as stated holds for every caller identifier equal to the owner. The check
  \<^verbatim>\<open>if (!userId) return false\<close> comes before the owner check and takes the empty string
  as no identifier: with the empty string as owner and as caller, WRITE on a private
  object is denied.
\<close>

theorem owner_empty_userId_counterexample:
  "getObjectAclPolicy sample_JSON (sample_backend (stored_policy policy_blank_owner)) sample_file
     = Inr (Some policy_blank_owner) \<and>
   owner policy_blank_owner = [] \<and>
   canAccessObject sample_JSON (sample_backend (stored_policy policy_blank_owner)) (Some [])
     sample_file WRITE = Inr False"
proof -
  have ow: "owner policy_blank_owner = []" and v: "visibility policy_blank_owner = Private"
    by (simp_all add: policy_blank_owner_def)
  show ?thesis
    using ow v sample_policy_blank_owner
    by (simp add: canAccessObject_policy [OF sample_policy_blank_owner])
qed

text \<open>
  C9. No group type has a membership check: the factory fails for every group. When the
  evaluation reaches the rules (the request is not a READ of a public object, the caller
  is present and is not the owner) and there is a rule, \<open>canAccessObject\<close> fails with
  the error \<^verbatim>\<open>Unknown access group type\<close> of the first rule; it does not return false.
\<close>

theorem unknown_group_type_fails:
  assumes "getObjectAclPolicy J be objectFile = Inr (Some aclPolicy)"
    and "\<not> (visibility aclPolicy = Public \<and> requestedPermission = READ)"
    and "userId \<noteq> []"
    and "owner aclPolicy \<noteq> userId"
    and "aclRules aclPolicy = Some (rule # rules)"
  shows "canAccessObject J be (Some userId) objectFile requestedPermission =
           Inl (Error (''Unknown access group type: '' @ group_type (group rule)))"
  using assms(2-5)
  by (simp add: canAccessObject_policy [OF assms(1)] createObjectAccessGroup_def)

text \<open>The caller \<open>u2\<close> reads an object whose private policy has one rule, for a group of type \<open>X\<close>.\<close>

theorem unknown_group_type_fails_witness:
  "getObjectAclPolicy sample_JSON (sample_backend (stored_policy policy_group)) sample_file
     = Inr (Some policy_group) \<and>
   canAccessObject sample_JSON (sample_backend (stored_policy policy_group)) (Some ''u2'')
     sample_file READ = Inl (Error ''Unknown access group type: X'')"
proof -
  have a: "\<not> (visibility policy_group = Public \<and> READ = READ)"
    and b: "''u2'' \<noteq> []" and c: "owner policy_group \<noteq> ''u2''"
    and d: "aclRules policy_group =
              Some (\<lparr>group = \<lparr>group_type = ''X'', group_id = ''g1''\<rparr>, permission = READ\<rparr> # [])"
    by (simp_all add: policy_group_def)
  show ?thesis
    using unknown_group_type_fails [OF sample_policy_group a b c d] sample_policy_group
    by simp
qed

text \<open>
  C10. For an object without a stored policy (\<open>getObjectAclPolicy\<close> returns null),
  \<open>canAccessObject\<close> returns false for every caller, present or absent, and every
  requested permission.
\<close>

theorem no_policy_no_access:
  "getObjectAclPolicy J be objectFile = Inr None \<Longrightarrow>
   canAccessObject J be userId objectFile requestedPermission = Inr False"
  by (simp add: canAccessObject_def)

text \<open>The uploader \<open>u1\<close> reads an object that has no policy key.\<close>

theorem no_policy_no_access_witness:
  "getObjectAclPolicy sample_JSON (sample_backend [''origin'' \<mapsto> ''upload'']) sample_file
     = Inr None \<and>
   canAccessObject sample_JSON (sample_backend [''origin'' \<mapsto> ''upload'']) (Some ''u1'')
     sample_file READ = Inr False"
proof -
  have h: "getObjectAclPolicy sample_JSON (sample_backend [''origin'' \<mapsto> ''upload''])
             sample_file = Inr None"
    by (simp add: getObjectAclPolicy_sample ACL_POLICY_METADATA_KEY_def)
  show ?thesis
    using no_policy_no_access [OF h, of "Some ''u1''" READ] h by simp
qed

end
